theory Spec2Isabelle
  imports Main "HOL-Library.AList" "HOL-Library.Sublist"
begin

section \<open>The training script \<open>scripts/train.py\<close>\<close>

text \<open>
  The script is glue code: every statement of \<open>main\<close> either reads an attribute of the
  parsed argument namespace, branches on one, or calls code that lives outside the file
  (the training framework, the data module, the model classes, \<open>pathlib\<close>,
  \<open>datetime\<close>, builtins). The embedding keeps the namespace and the control flow of
  the script concrete and records every external call, with the arguments it is given
  and the answer it gets, in a trace. What an external call answers is decided by a
  \<open>world\<close>, which may also make the call raise.
\<close>

subsection \<open>Python values\<close>

text \<open>
  \<open>VFloat m e\<close> is the decimal literal \<open>m\<close>e\<open>e\<close> (\<open>1e-5\<close> is \<open>VFloat 1 (-5)\<close>),
  \<open>VRef\<close> names a class or builtin passed as a value (\<open>type=str\<close>), \<open>VObj\<close> is a
  handle to an object made by external code.
\<close>

datatype pyval =
    VNone
  | VBool bool
  | VInt int
  | VFloat int int
  | VStr string
  | VPath string
  | VRef string
  | VObj nat
  | VList "pyval list"
  | VNamespace "(string \<times> pyval) list"

datatype error =
    AttributeError string
  | TypeError string
  | SystemExit int
  | Raised nat

text \<open>An \<open>argparse.Namespace\<close>: its \<open>__dict__\<close>, in insertion order.\<close>

type_synonym namespace = "(string \<times> pyval) list"

subsection \<open>External calls, traces, worlds\<close>

datatype callee =
    ArgumentParser
  | add_argument
  | Exceiver_add_argparse_args
  | ExceiverDataModule_add_argparse_args
  | parse_args
  | sys_exit
  | seed_everything
  | Path_mkdir
  | ExceiverDataModule
  | prepare_data
  | getattribute
  | getitem
  | nunique
  | Exceiver
  | Exceiver_load_from_checkpoint
  | ExceiverClassifier
  | ExceiverClassifier_load_from_checkpoint
  | TensorBoardLogger
  | EarlyStopping
  | ModelCheckpoint
  | datetime_now
  | Trainer
  | Trainer_fit
  | datetime_sub
  | str_of
  | str_format
  | fstring
  | print

text \<open>A call: the callee, the positional arguments (receiver first), the keywords.\<close>

datatype call = Call callee "pyval list" "(string \<times> pyval) list"

datatype event = Ev call "error + pyval"

type_synonym trace = "event list"

text \<open>
  The world answers a call from the calls made so far. \<open>argv\<close> is what
  \<open>parser.parse_args()\<close> makes of the command line: the namespace, or the exception
  it raises.
\<close>

record world =
  respond :: "trace \<Rightarrow> call \<Rightarrow> error + pyval"
  argv :: "error + namespace"

type_synonym 'a exec = "world \<Rightarrow> trace \<Rightarrow> trace \<times> (error + 'a)"

definition return :: "'a \<Rightarrow> 'a exec" where
  "return x = (\<lambda>w tr. (tr, Inr x))"

definition raise :: "error \<Rightarrow> 'a exec" where
  "raise e = (\<lambda>w tr. (tr, Inl e))"

text \<open>Sequencing: an exception of the first part ends the run, nothing catches it.\<close>

definition bnd :: "'a exec \<Rightarrow> ('a \<Rightarrow> 'b exec) \<Rightarrow> 'b exec" where
  "bnd m f = (\<lambda>w tr. case m w tr of
      (tr', Inl e) \<Rightarrow> (tr', Inl e)
    | (tr', Inr x) \<Rightarrow> f x w tr')"

definition call :: "callee \<Rightarrow> pyval list \<Rightarrow> (string \<times> pyval) list \<Rightarrow> pyval exec" where
  "call c ps ks = (\<lambda>w tr.
     let r = respond w tr (Call c ps ks) in (tr @ [Ev (Call c ps ks) r], r))"

subsection \<open>Attribute access, truth values\<close>

text \<open>\<open>args.a\<close>: a namespace without the attribute raises \<open>AttributeError\<close>.\<close>

definition getattr :: "namespace \<Rightarrow> string \<Rightarrow> pyval exec" where
  "getattr args a = (case map_of args a of
      None \<Rightarrow> raise (AttributeError a)
    | Some v \<Rightarrow> return v)"

text \<open>\<open>args.a = v\<close>: the key keeps its place if it is there, and is appended if not.\<close>

definition setattr :: "namespace \<Rightarrow> string \<Rightarrow> pyval \<Rightarrow> namespace" where
  "setattr args a v = AList.update a v args"

text \<open>Python's truth value, as \<open>if args.load:\<close> tests it.\<close>

fun truthy :: "pyval \<Rightarrow> bool" where
  "truthy VNone = False"
| "truthy (VBool b) = b"
| "truthy (VInt i) = (i \<noteq> 0)"
| "truthy (VFloat m e) = (m \<noteq> 0)"
| "truthy (VStr s) = (s \<noteq> [])"
| "truthy (VPath p) = True"
| "truthy (VRef n) = True"
| "truthy (VObj h) = True"
| "truthy (VList xs) = (xs \<noteq> [])"
| "truthy (VNamespace ns) = True"

text \<open>
  \<open>args.logs.mkdir(parents=True, exist_ok=True)\<close>: a \<open>Path\<close> has the method (so may an
  object of external code, the world decides); \<open>None\<close>, the value of an omitted
  \<open>--logs\<close>, and the other scalars do not.
\<close>

fun has_mkdir :: "pyval \<Rightarrow> bool" where
  "has_mkdir (VPath p) = True"
| "has_mkdir (VObj h) = True"
| "has_mkdir _ = False"

definition mkdir :: "pyval \<Rightarrow> pyval exec" where
  "mkdir p = (if has_mkdir p
     then call Path_mkdir [p] [(''parents'', VBool True), (''exist_ok'', VBool True)]
     else raise (AttributeError ''mkdir''))"

text \<open>
  \<open>f(classify_dim=v, **kw)\<close>: a keyword given twice is a \<open>TypeError\<close>, raised after
  the argument expressions are evaluated and before the callee runs.
\<close>

definition call_star :: "callee \<Rightarrow> string \<Rightarrow> pyval \<Rightarrow> namespace \<Rightarrow> pyval exec" where
  "call_star c k v kw = (if k \<in> fst ` set kw
     then raise (TypeError k)
     else call c [] ((k, v) # kw))"

subsection \<open>\<open>main\<close>\<close>

text \<open>Lines 57 to 66, \<open># Set up model\<close>.\<close>

definition set_up_model :: "namespace \<Rightarrow> pyval \<Rightarrow> pyval exec" where
  "set_up_model args dm =
    (let dict_args = args in
     bnd (getattr args ''classify'') (\<lambda>classify.
     if classify = VNone then
       bnd (getattr args ''load'') (\<lambda>load.
       if truthy load then
         bnd (getattr args ''load'') (\<lambda>path.
         call Exceiver_load_from_checkpoint [] [(''checkpoint_path'', path)])
       else
         call Exceiver [] dict_args)
     else
       bnd (getattr args ''load'') (\<lambda>load.
       if truthy load then
         bnd (getattr args ''load'') (\<lambda>path.
         call ExceiverClassifier_load_from_checkpoint [] [(''checkpoint_path'', path)])
       else
         bnd (call getattribute [dm, VStr ''val_adata''] []) (\<lambda>val_adata.
         bnd (call getattribute [val_adata, VStr ''obs''] []) (\<lambda>obs.
         bnd (getattr args ''classify'') (\<lambda>key.
         bnd (call getitem [obs, key] []) (\<lambda>column.
         bnd (call nunique [column] []) (\<lambda>classify_dim.
         call_star ExceiverClassifier ''classify_dim'' classify_dim dict_args))))))))"

text \<open>Lines 81 and 82: \<open>if args.strategy == "ddp": pass\<close>.\<close>

definition strategy_check :: "namespace \<Rightarrow> pyval exec" where
  "strategy_check args =
     bnd (getattr args ''strategy'') (\<lambda>strategy.
     if strategy = VStr ''ddp'' then return VNone else return VNone)"

text \<open>Lines 104 and 105, the two reports printed after \<open>fit\<close> returns.\<close>

definition report :: "pyval \<Rightarrow> pyval \<Rightarrow> pyval exec" where
  "report start checkpoint_callback =
     bnd (call datetime_now [] []) (\<lambda>now.
     bnd (call datetime_sub [now, start] []) (\<lambda>elapsed.
     bnd (call str_of [elapsed] []) (\<lambda>s.
     bnd (call str_format [VStr ''Completed in {}'', s] []) (\<lambda>line.
     bnd (call print [line] []) (\<lambda>_.
     bnd (call getattribute [checkpoint_callback, VStr ''best_model_path''] []) (\<lambda>best.
     bnd (call fstring [VStr ''Model saved at {}'', best] []) (\<lambda>line.
     call print [line] [])))))))"

definition main :: "namespace \<Rightarrow> pyval exec" where
  "main args0 =
     bnd (call seed_everything [VInt 2299] []) (\<lambda>_.
     bnd (getattr args0 ''logs'') (\<lambda>logs.
     bnd (mkdir logs) (\<lambda>_.
     bnd (getattr args0 ''data_path'') (\<lambda>data_path.
     bnd (getattr args0 ''classify'') (\<lambda>classify.
     bnd (call ExceiverDataModule [] [(''data_path'', data_path), (''classify'', classify)]) (\<lambda>dm.
     bnd (call prepare_data [dm] []) (\<lambda>_.
     bnd (call getattribute [dm, VStr ''n_features''] []) (\<lambda>n_features.
     let args = setattr args0 ''seq_len'' n_features in
     bnd (set_up_model args dm) (\<lambda>model.
     bnd (getattr args ''logs'') (\<lambda>save_dir.
     bnd (getattr args ''name'') (\<lambda>version.
     bnd (call TensorBoardLogger []
            [(''save_dir'', save_dir), (''version'', version),
             (''name'', VStr ''lightning_logs''), (''default_hp_metric'', VBool False)]) (\<lambda>logger.
     bnd (call EarlyStopping []
            [(''monitor'', VStr ''val_MSELoss''), (''min_delta'', VFloat 1 (- 5)),
             (''patience'', VInt 10), (''verbose'', VBool False), (''mode'', VStr ''min'')]) (\<lambda>early_stop.
     bnd (call ModelCheckpoint []
            [(''monitor'', VStr ''val_MSELoss''), (''mode'', VStr ''min''),
             (''save_last'', VBool True)]) (\<lambda>checkpoint_callback.
     bnd (strategy_check args) (\<lambda>_.
     bnd (call datetime_now [] []) (\<lambda>start.
     bnd (getattr args ''strategy'') (\<lambda>strategy.
     bnd (call Trainer []
            [(''strategy'', strategy), (''devices'', VInt 1),
             (''callbacks'', VList [early_stop, checkpoint_callback]),
             (''logger'', logger), (''profiler'', VStr ''simple'')]) (\<lambda>trainer.
     bnd (call Trainer_fit [trainer, model, dm] []) (\<lambda>_.
     bnd (report start checkpoint_callback) (\<lambda>_.
     return VNone))))))))))))))))))))"

subsection \<open>The script, run as \<open>__main__\<close>\<close>

text \<open>
  Lines 110 to 130. \<open>parse_args\<close> answers with \<open>argv\<close>, the namespace of the world.
\<close>

definition parse :: "pyval \<Rightarrow> namespace exec" where
  "parse parser = (\<lambda>w tr.
     case argv w of
       Inl e \<Rightarrow> (tr @ [Ev (Call parse_args [parser] []) (Inl e)], Inl e)
     | Inr args \<Rightarrow> (tr @ [Ev (Call parse_args [parser] []) (Inr (VNamespace args))], Inr args))"

definition script :: "pyval exec" where
  "script =
     bnd (call ArgumentParser []
            [(''description'', VStr ''Script for self-supervised scRNAseq training.''),
             (''formatter_class'', VRef ''argparse.ArgumentDefaultsHelpFormatter'')]) (\<lambda>parser.
     bnd (call add_argument [parser, VStr ''--name'']
            [(''type'', VRef ''str''), (''help'', VStr ''Prepended name of experiment.'')]) (\<lambda>_.
     bnd (call add_argument [parser, VStr ''--logs'']
            [(''type'', VRef ''Path''),
             (''help'', VStr ''Path to model logs and checkpoints.'')]) (\<lambda>_.
     bnd (call add_argument [parser, VStr ''--load'']
            [(''type'', VRef ''str''), (''default'', VNone),
             (''help'', VStr ''Path to checkpoint to load into model.'')]) (\<lambda>_.
     bnd (call add_argument [parser, VStr ''--strategy'']
            [(''type'', VRef ''str''), (''default'', VStr ''ddp'')]) (\<lambda>_.
     bnd (call Exceiver_add_argparse_args [parser] []) (\<lambda>parser.
     bnd (call ExceiverDataModule_add_argparse_args [parser] []) (\<lambda>parser.
     bnd (parse parser) (\<lambda>args.
     bnd (main args) (\<lambda>status.
     call sys_exit [status] [])))))))))"

subsection \<open>Reading a trace\<close>

definition callee_of :: "event \<Rightarrow> callee" where
  "callee_of e = (case e of Ev (Call f ps ks) r \<Rightarrow> f)"

definition call_of :: "event \<Rightarrow> call" where
  "call_of e = (case e of Ev c r \<Rightarrow> c)"

definition positional :: "event \<Rightarrow> pyval list" where
  "positional e = (case e of Ev (Call f ps ks) r \<Rightarrow> ps)"

definition kwargs_of :: "event \<Rightarrow> (string \<times> pyval) list" where
  "kwargs_of e = (case e of Ev (Call f ps ks) r \<Rightarrow> ks)"

definition answer :: "event \<Rightarrow> error + pyval" where
  "answer e = (case e of Ev c r \<Rightarrow> r)"

text \<open>The external call of the event raised.\<close>

definition failed :: "event \<Rightarrow> bool" where
  "failed e = (case answer e of Inl x \<Rightarrow> True | Inr v \<Rightarrow> False)"

text \<open>The events of a trace that call \<open>f\<close>, in order.\<close>

definition calls_to :: "callee \<Rightarrow> trace \<Rightarrow> event list" where
  "calls_to f tr = filter (\<lambda>e. callee_of e = f) tr"


text \<open>The events that read the attribute \<open>a\<close> of an object of external code.\<close>

definition attribute_reads :: "string \<Rightarrow> trace \<Rightarrow> event list" where
  "attribute_reads a tr =
     filter (\<lambda>e. callee_of e = getattribute \<and> positional e \<noteq> [] \<and>
                  last (positional e) = VStr a) tr"

text \<open>The four ways the script has of making a model, two for each variant.\<close>

definition builds_Exceiver :: "callee \<Rightarrow> bool" where
  "builds_Exceiver f = (f = Exceiver \<or> f = Exceiver_load_from_checkpoint)"

definition builds_ExceiverClassifier :: "callee \<Rightarrow> bool" where
  "builds_ExceiverClassifier f =
     (f = ExceiverClassifier \<or> f = ExceiverClassifier_load_from_checkpoint)"

definition model_builds :: "trace \<Rightarrow> event list" where
  "model_builds tr =
     filter (\<lambda>e. builds_Exceiver (callee_of e) \<or> builds_ExceiverClassifier (callee_of e)) tr"

text \<open>
  The steps of the procedure, as the specification lists them, and the calls that make
  up each: the sections of \<open>main\<close> headed \<open># Set seed\<close>, \<open># Set up data module\<close>,
  \<open># Set up model\<close>, \<open># Set up callbacks\<close>, \<open># Set up Trainer\<close> and
  \<open># Train model\<close>, after \<open>parse_args\<close>. The other calls (making the log directory,
  reading attributes, the clock, the reports) belong to no step of that list.
\<close>

datatype step =
    ParseArguments
  | SeedRNG
  | BuildDataModule
  | BuildModel
  | BuildCallbacks
  | BuildTrainer
  | CallFit

definition step_of :: "callee \<Rightarrow> step option" where
  "step_of f =
     (if f = parse_args then Some ParseArguments
      else if f = seed_everything then Some SeedRNG
      else if f = ExceiverDataModule \<or> f = prepare_data then Some BuildDataModule
      else if builds_Exceiver f \<or> builds_ExceiverClassifier f then Some BuildModel
      else if f = TensorBoardLogger \<or> f = EarlyStopping \<or> f = ModelCheckpoint
        then Some BuildCallbacks
      else if f = Trainer then Some BuildTrainer
      else if f = Trainer_fit then Some CallFit
      else None)"

text \<open>The steps a trace goes through: consecutive calls of one step count once.\<close>

definition steps :: "trace \<Rightarrow> step list" where
  "steps tr = remdups_adj (List.map_filter (\<lambda>e. step_of (callee_of e)) tr)"

definition fixed_order :: "step list" where
  "fixed_order =
     [ParseArguments, SeedRNG, BuildDataModule, BuildModel, BuildCallbacks, BuildTrainer, CallFit]"

text \<open>The calls that stand for a step, each of which is made at most once.\<close>

definition step_calls :: "trace \<Rightarrow> callee list" where
  "step_calls tr = filter (\<lambda>f. step_of f \<noteq> None) (map callee_of tr)"

subsection \<open>Sample worlds and command lines\<close>

text \<open>
  A world in which every call returns: \<open>n_features\<close> is 5, a column has 3 distinct
  values, anything else is a fresh object; \<open>sys.exit\<close> raises \<open>SystemExit\<close>.
\<close>

fun answers :: "trace \<Rightarrow> call \<Rightarrow> error + pyval" where
  "answers tr (Call f ps ks) =
     (if f = sys_exit then Inl (SystemExit 0)
      else if f = getattribute \<and> ps \<noteq> [] \<and> last ps = VStr ''n_features'' then Inr (VInt 5)
      else if f = nunique then Inr (VInt 3)
      else Inr (VObj (length tr)))"

text \<open>The same world, except that \<open>dm.prepare_data()\<close> raises.\<close>

definition answers_no_data :: "trace \<Rightarrow> call \<Rightarrow> error + pyval" where
  "answers_no_data tr c =
     (case c of Call f ps ks \<Rightarrow> if f = prepare_data then Inl (Raised 2) else answers tr c)"

text \<open>\<open>--name run --logs logs --data_path ts.h5ad\<close>\<close>

definition args_plain :: namespace where
  "args_plain =
     [(''name'', VStr ''run''), (''logs'', VPath ''logs''), (''load'', VNone),
      (''strategy'', VStr ''ddp''), (''data_path'', VStr ''ts.h5ad''), (''classify'', VNone)]"

text \<open>\<open>--name run --logs logs --load last.ckpt --data_path ts.h5ad --classify cell\<close>\<close>

definition args_load :: namespace where
  "args_load =
     [(''name'', VStr ''run''), (''logs'', VPath ''logs''), (''load'', VStr ''last.ckpt''),
      (''strategy'', VStr ''ddp''), (''data_path'', VStr ''ts.h5ad''),
      (''classify'', VStr ''cell'')]"

text \<open>\<open>--name run --logs logs --load "" --data_path ts.h5ad\<close>\<close>

definition args_empty_load :: namespace where
  "args_empty_load =
     [(''name'', VStr ''run''), (''logs'', VPath ''logs''), (''load'', VStr []),
      (''strategy'', VStr ''ddp''), (''data_path'', VStr ''ts.h5ad''), (''classify'', VNone)]"

text \<open>
  \<open>--name run --data_path ts.h5ad\<close>: \<open>--logs\<close> is left out, so \<open>args.logs\<close> is \<open>None\<close>.
\<close>

definition args_no_logs :: namespace where
  "args_no_logs =
     [(''name'', VStr ''run''), (''logs'', VNone), (''load'', VNone),
      (''strategy'', VStr ''ddp''), (''data_path'', VStr ''ts.h5ad''), (''classify'', VNone)]"

text \<open>\<open>--name run --logs logs --strategy auto --data_path ts.h5ad\<close>\<close>

definition args_auto :: namespace where
  "args_auto =
     [(''name'', VStr ''run''), (''logs'', VPath ''logs''), (''load'', VNone),
      (''strategy'', VStr ''auto''), (''data_path'', VStr ''ts.h5ad''), (''classify'', VNone)]"

definition world_of :: "(trace \<Rightarrow> call \<Rightarrow> error + pyval) \<Rightarrow> namespace \<Rightarrow> world" where
  "world_of f args = \<lparr>respond = f, argv = Inr args\<rparr>"

subsection \<open>What holds of every run\<close>

text \<open>
  \<open>always m tr Q\<close>: started on the trace \<open>tr\<close>, in any world, \<open>m\<close> ends with a trace
  and an outcome that satisfy \<open>Q\<close>.
\<close>

definition always :: "'a exec \<Rightarrow> trace \<Rightarrow> (trace \<Rightarrow> error + 'a \<Rightarrow> bool) \<Rightarrow> bool" where
  "always m tr Q = (\<forall>w. case m w tr of (tr', r) \<Rightarrow> Q tr' r)"

section \<open>Symbolic execution\<close>

lemma alwaysD: "always m tr Q \<Longrightarrow> Q (fst (m w tr)) (snd (m w tr))"
  by (simp add: always_def split_beta)

lemma always_return: "Q tr (Inr x) \<Longrightarrow> always (return x) tr Q"
  by (simp add: always_def return_def)

lemma always_raise: "Q tr (Inl e) \<Longrightarrow> always (raise e) tr Q"
  by (simp add: always_def raise_def)

lemma always_call:
  assumes "\<And>e. Q (tr @ [Ev (Call c ps ks) (Inl e)]) (Inl e)"
    and "\<And>x. Q (tr @ [Ev (Call c ps ks) (Inr x)]) (Inr x)"
  shows "always (call c ps ks) tr Q"
  unfolding always_def call_def Let_def
proof (intro allI)
  fix w :: world
  show "case (tr @ [Ev (Call c ps ks) (respond w tr (Call c ps ks))],
              respond w tr (Call c ps ks)) of (tr', r) \<Rightarrow> Q tr' r"
    by (cases "respond w tr (Call c ps ks)") (simp_all add: assms)
qed

lemma always_bnd_call:
  assumes "\<And>e. Q (tr @ [Ev (Call c ps ks) (Inl e)]) (Inl e)"
    and "\<And>x. always (f x) (tr @ [Ev (Call c ps ks) (Inr x)]) Q"
  shows "always (bnd (call c ps ks) f) tr Q"
  unfolding always_def
proof (intro allI)
  fix w :: world
  show "case bnd (call c ps ks) f w tr of (tr', r) \<Rightarrow> Q tr' r"
  proof (cases "respond w tr (Call c ps ks)")
    case (Inl e)
    then show ?thesis
      using assms(1)[of e] by (simp add: bnd_def call_def Let_def)
  next
    case (Inr x)
    then show ?thesis
      using assms(2)[of x] by (simp add: bnd_def call_def always_def Let_def)
  qed
qed

lemma always_bnd_getattr:
  assumes "map_of args a = None \<Longrightarrow> Q tr (Inl (AttributeError a))"
    and "\<And>v. map_of args a = Some v \<Longrightarrow> always (f v) tr Q"
  shows "always (bnd (getattr args a) f) tr Q"
proof (cases "map_of args a")
  case None
  then show ?thesis
    using assms(1) by (simp add: always_def bnd_def getattr_def raise_def)
next
  case (Some v)
  then show ?thesis
    using assms(2)[of v] by (simp add: always_def bnd_def getattr_def return_def)
qed

lemma always_bnd_return: "always (f x) tr Q \<Longrightarrow> always (bnd (return x) f) tr Q"
  by (simp add: always_def bnd_def return_def)

lemma always_bnd_raise: "Q tr (Inl e) \<Longrightarrow> always (bnd (raise e) f) tr Q"
  by (simp add: always_def bnd_def raise_def)

lemma always_if:
  "(b \<Longrightarrow> always m1 tr Q) \<Longrightarrow> (\<not> b \<Longrightarrow> always m2 tr Q) \<Longrightarrow>
   always (if b then m1 else m2) tr Q"
  by simp

lemma bnd_assoc: "bnd (bnd m f) g = bnd m (\<lambda>x. bnd (f x) g)"
  unfolding bnd_def by (rule ext, rule ext) (simp split: prod.splits sum.splits)

lemma bnd_if: "bnd (if b then m1 else m2) f = (if b then bnd m1 f else bnd m2 f)"
  by simp

lemmas always_intros =
  always_bnd_call always_bnd_getattr always_bnd_return always_bnd_raise
  always_if always_call always_return always_raise

lemmas main_unfold =
  main_def set_up_model_def strategy_check_def report_def mkdir_def call_star_def Let_def

lemma callee_of_Ev [simp]: "callee_of (Ev (Call f ps ks) r) = f"
  by (simp add: callee_of_def)

lemma call_of_Ev [simp]: "call_of (Ev c r) = c"
  by (simp add: call_of_def)

lemma positional_Ev [simp]: "positional (Ev (Call f ps ks) r) = ps"
  by (simp add: positional_def)

lemma kwargs_of_Ev [simp]: "kwargs_of (Ev (Call f ps ks) r) = ks"
  by (simp add: kwargs_of_def)

lemma answer_Ev [simp]: "answer (Ev c r) = r"
  by (simp add: answer_def)

lemma failed_Ev [simp]: "failed (Ev c (Inl e))" "\<not> failed (Ev c (Inr v))"
  by (simp_all add: failed_def)

section \<open>Sample runs\<close>

lemma run_bnd_call:
  "bnd (call c ps ks) f w tr =
     (case respond w tr (Call c ps ks) of
        Inl e \<Rightarrow> (tr @ [Ev (Call c ps ks) (Inl e)], Inl e)
      | Inr x \<Rightarrow> f x w (tr @ [Ev (Call c ps ks) (Inr x)]))"
  by (simp add: bnd_def call_def Let_def split: sum.splits)

lemma run_call:
  "call c ps ks w tr =
     (tr @ [Ev (Call c ps ks) (respond w tr (Call c ps ks))], respond w tr (Call c ps ks))"
  by (simp add: call_def Let_def)

lemma run_bnd_getattr:
  "bnd (getattr args a) f w tr =
     (case map_of args a of None \<Rightarrow> (tr, Inl (AttributeError a)) | Some v \<Rightarrow> f v w tr)"
  by (simp add: bnd_def getattr_def return_def raise_def split: option.splits)

lemma run_bnd_return: "bnd (return x) f w tr = f x w tr"
  by (simp add: bnd_def return_def)

lemma run_bnd_raise: "bnd (raise e) f w tr = (tr, Inl e)"
  by (simp add: bnd_def raise_def)

lemma run_return: "return x w tr = (tr, Inr x)"
  by (simp add: return_def)

lemma run_raise: "raise e w tr = (tr, Inl e)"
  by (simp add: raise_def)

lemmas run_simps =
  run_bnd_call run_call run_bnd_getattr run_bnd_return run_bnd_raise run_return run_raise
  bnd_assoc

lemma respond_world_of [simp]: "respond (world_of f a) = f"
  by (simp add: world_of_def)

lemma argv_world_of [simp]: "argv (world_of f a) = Inr a"
  by (simp add: world_of_def)

text \<open>A run in which every call returns: the pure model, made by its constructor.\<close>

lemma run_plain:
  "main args_plain (world_of answers args_plain) [] =
   ([Ev (Call seed_everything [VInt 2299] []) (Inr (VObj 0)),
     Ev (Call Path_mkdir [VPath ''logs'']
          [(''parents'', VBool True), (''exist_ok'', VBool True)]) (Inr (VObj 1)),
     Ev (Call ExceiverDataModule []
          [(''data_path'', VStr ''ts.h5ad''), (''classify'', VNone)]) (Inr (VObj 2)),
     Ev (Call prepare_data [VObj 2] []) (Inr (VObj 3)),
     Ev (Call getattribute [VObj 2, VStr ''n_features''] []) (Inr (VInt 5)),
     Ev (Call Exceiver []
          [(''name'', VStr ''run''), (''logs'', VPath ''logs''), (''load'', VNone),
           (''strategy'', VStr ''ddp''), (''data_path'', VStr ''ts.h5ad''),
           (''classify'', VNone), (''seq_len'', VInt 5)]) (Inr (VObj 5)),
     Ev (Call TensorBoardLogger []
          [(''save_dir'', VPath ''logs''), (''version'', VStr ''run''),
           (''name'', VStr ''lightning_logs''), (''default_hp_metric'', VBool False)])
        (Inr (VObj 6)),
     Ev (Call EarlyStopping []
          [(''monitor'', VStr ''val_MSELoss''), (''min_delta'', VFloat 1 (- 5)),
           (''patience'', VInt 10), (''verbose'', VBool False), (''mode'', VStr ''min'')])
        (Inr (VObj 7)),
     Ev (Call ModelCheckpoint []
          [(''monitor'', VStr ''val_MSELoss''), (''mode'', VStr ''min''),
           (''save_last'', VBool True)]) (Inr (VObj 8)),
     Ev (Call datetime_now [] []) (Inr (VObj 9)),
     Ev (Call Trainer []
          [(''strategy'', VStr ''ddp''), (''devices'', VInt 1),
           (''callbacks'', VList [VObj 7, VObj 8]), (''logger'', VObj 6),
           (''profiler'', VStr ''simple'')]) (Inr (VObj 10)),
     Ev (Call Trainer_fit [VObj 10, VObj 5, VObj 2] []) (Inr (VObj 11)),
     Ev (Call datetime_now [] []) (Inr (VObj 12)),
     Ev (Call datetime_sub [VObj 12, VObj 9] []) (Inr (VObj 13)),
     Ev (Call str_of [VObj 13] []) (Inr (VObj 14)),
     Ev (Call str_format [VStr ''Completed in {}'', VObj 14] []) (Inr (VObj 15)),
     Ev (Call print [VObj 15] []) (Inr (VObj 16)),
     Ev (Call getattribute [VObj 8, VStr ''best_model_path''] []) (Inr (VObj 17)),
     Ev (Call fstring [VStr ''Model saved at {}'', VObj 17] []) (Inr (VObj 18)),
     Ev (Call print [VObj 18] []) (Inr (VObj 19))],
    Inr VNone)"
  unfolding main_unfold setattr_def args_plain_def
  by (simp add: run_simps)

text \<open>A run in which \<open>prepare_data\<close> raises: the run ends there, with that exception.\<close>

lemma run_no_data:
  "main args_plain (world_of answers_no_data args_plain) [] =
   ([Ev (Call seed_everything [VInt 2299] []) (Inr (VObj 0)),
     Ev (Call Path_mkdir [VPath ''logs'']
          [(''parents'', VBool True), (''exist_ok'', VBool True)]) (Inr (VObj 1)),
     Ev (Call ExceiverDataModule []
          [(''data_path'', VStr ''ts.h5ad''), (''classify'', VNone)]) (Inr (VObj 2)),
     Ev (Call prepare_data [VObj 2] []) (Inl (Raised 2))],
    Inl (Raised 2))"
  unfolding main_unfold setattr_def args_plain_def
  by (simp add: run_simps answers_no_data_def)

text \<open>A run that loads the classifier from a checkpoint.\<close>

lemma run_load:
  "model_builds (fst (main args_load (world_of answers args_load) [])) =
     [Ev (Call ExceiverClassifier_load_from_checkpoint []
           [(''checkpoint_path'', VStr ''last.ckpt'')]) (Inr (VObj 5))] \<and>
   calls_to nunique (fst (main args_load (world_of answers args_load) [])) = [] \<and>
   snd (main args_load (world_of answers args_load) []) = Inr VNone"
  unfolding main_unfold setattr_def args_load_def
  by (simp add: run_simps model_builds_def calls_to_def builds_Exceiver_def
      builds_ExceiverClassifier_def)

text \<open>A run with \<open>--load ""\<close>: the model is made by its constructor.\<close>

lemma run_empty_load:
  "map callee_of (model_builds (fst (main args_empty_load (world_of answers args_empty_load) []))) =
     [Exceiver]"
  unfolding main_unfold setattr_def args_empty_load_def
  by (simp add: run_simps model_builds_def builds_Exceiver_def builds_ExceiverClassifier_def)

lemma args_plain_lookup [simp]:
  "map_of args_plain ''classify'' = Some VNone"
  "map_of args_plain ''strategy'' = Some (VStr ''ddp'')"
  "map_of args_plain ''load'' = Some VNone"
  by (simp_all add: args_plain_def)

lemma args_load_lookup [simp]:
  "map_of args_load ''classify'' = Some (VStr ''cell'')"
  "map_of args_load ''load'' = Some (VStr ''last.ckpt'')"
  by (simp_all add: args_load_def)

lemma args_empty_load_lookup [simp]:
  "map_of args_empty_load ''load'' = Some (VStr [])"
  "map_of args_empty_load ''classify'' = Some VNone"
  by (simp_all add: args_empty_load_def)

lemma args_no_logs_lookup [simp]:
  "map_of args_no_logs ''logs'' = Some VNone"
  "map_of args_no_logs ''classify'' = Some VNone"
  by (simp_all add: args_no_logs_def)

lemma run_plain_model:
  "model_builds (fst (main args_plain (world_of answers args_plain) [])) =
     [Ev (Call Exceiver []
           [(''name'', VStr ''run''), (''logs'', VPath ''logs''), (''load'', VNone),
            (''strategy'', VStr ''ddp''), (''data_path'', VStr ''ts.h5ad''),
            (''classify'', VNone), (''seq_len'', VInt 5)]) (Inr (VObj 5))]"
  by (simp add: run_plain model_builds_def builds_Exceiver_def builds_ExceiverClassifier_def)

lemma run_plain_returns: "snd (main args_plain (world_of answers args_plain) []) = Inr VNone"
  by (simp add: run_plain)

text \<open>
  A run with \<open>--logs\<close> left out: \<open>None\<close> has no \<open>mkdir\<close>, and the run ends at line 46
  with an \<open>AttributeError\<close>, though no external call has raised.
\<close>

lemma run_no_logs:
  "main args_no_logs (world_of answers args_no_logs) [] =
   ([Ev (Call seed_everything [VInt 2299] []) (Inr (VObj 0))],
    Inl (AttributeError ''mkdir''))"
  unfolding main_unfold setattr_def args_no_logs_def
  by (simp add: run_simps)


section \<open>The claims\<close>

lemma map_of_setattr [simp]:
  "map_of (setattr args a v) k = (if k = a then Some v else map_of args k)"
  by (simp add: setattr_def update_conv')

subsection \<open>C1: one model, of the variant that \<open>args.classify\<close> selects\<close>

text \<open>
  C1 as stated fails in its last part, ``never neither'': a run that ends before
  line 57 makes no model. With \<open>--logs\<close> left out \<open>args.logs\<close> is \<open>None\<close>, line 46
  raises \<open>AttributeError\<close> (no external call has raised: the only call made,
  \<open>seed_everything\<close>, returned), and neither variant is constructed.
\<close>

theorem no_model_counterexample:
  "map_of args_no_logs ''logs'' = Some VNone \<and>
   map_of args_no_logs ''classify'' = Some VNone \<and>
   main args_no_logs (world_of answers args_no_logs) [] =
     ([Ev (Call seed_everything [VInt 2299] []) (Inr (VObj 0))],
      Inl (AttributeError ''mkdir'')) \<and>
   model_builds (fst (main args_no_logs (world_of answers args_no_logs) [])) = [] \<and>
   length (model_builds (fst (main args_no_logs (world_of answers args_no_logs) []))) \<noteq> 1"
  by (simp add: run_no_logs model_builds_def builds_Exceiver_def builds_ExceiverClassifier_def)

lemma model_always:
  "always (main args) []
     (\<lambda>tr r. length (model_builds tr) \<le> 1 \<and>
        (\<forall>e\<in>set (model_builds tr).
           (builds_Exceiver (callee_of e) \<longleftrightarrow> map_of args ''classify'' = Some VNone) \<and>
           (builds_ExceiverClassifier (callee_of e) \<longleftrightarrow>
              map_of args ''classify'' \<noteq> Some VNone)) \<and>
        (\<not> isl r \<longrightarrow> length (model_builds tr) = 1 \<and> \<not> failed (hd (model_builds tr))))"
  unfolding main_unfold bnd_assoc if_cancel bnd_if
  by (intro always_intros)
     (simp_all add: model_builds_def builds_Exceiver_def builds_ExceiverClassifier_def)

text \<open>
  C1, amended. A run of \<open>main\<close> never makes more than one model, so never both
  variants. A model it makes is an \<open>Exceiver\<close> (by the constructor or by
  \<open>load_from_checkpoint\<close>) exactly when \<open>args.classify\<close> is \<open>None\<close>, and an
  \<open>ExceiverClassifier\<close> exactly when it is not. A run in which \<open>main\<close> returns made
  exactly one model, and the call that made it returned.
\<close>

theorem main_builds_one_model:
  "length (model_builds (fst (main args w []))) \<le> 1 \<and>
   (\<forall>e\<in>set (model_builds (fst (main args w []))).
      (builds_Exceiver (callee_of e) \<longleftrightarrow> map_of args ''classify'' = Some VNone) \<and>
      (builds_ExceiverClassifier (callee_of e) \<longleftrightarrow> map_of args ''classify'' \<noteq> Some VNone)) \<and>
   (\<not> isl (snd (main args w [])) \<longrightarrow>
      length (model_builds (fst (main args w []))) = 1 \<and>
      \<not> failed (hd (model_builds (fst (main args w [])))))"
  using alwaysD[OF model_always, of args w] by simp

theorem main_builds_one_model_witness:
  "\<not> isl (snd (main args_plain (world_of answers args_plain) [])) \<and>
   map_of args_plain ''classify'' = Some VNone \<and>
   map callee_of (model_builds (fst (main args_plain (world_of answers args_plain) []))) =
     [Exceiver] \<and>
   map_of args_load ''classify'' \<noteq> Some VNone \<and>
   map callee_of (model_builds (fst (main args_load (world_of answers args_load) []))) =
     [ExceiverClassifier_load_from_checkpoint]"
  using main_builds_one_model[of args_plain "world_of answers args_plain"]
    main_builds_one_model[of args_load "world_of answers args_load"]
  by (simp add: run_plain_model run_load run_plain_returns)

subsection \<open>C2: what reaches the constructors\<close>

text \<open>
  C2 as stated fails: line 53 sets \<open>args.seq_len\<close> before the namespace is handed to
  the model constructor, so the constructor gets an argument that parsing did not give.
\<close>

lemma run_plain_Exceiver:
  "calls_to Exceiver (fst (main args_plain (world_of answers args_plain) [])) =
     [Ev (Call Exceiver []
           [(''name'', VStr ''run''), (''logs'', VPath ''logs''), (''load'', VNone),
            (''strategy'', VStr ''ddp''), (''data_path'', VStr ''ts.h5ad''),
            (''classify'', VNone), (''seq_len'', VInt 5)]) (Inr (VObj 5))]"
  by (simp add: run_plain calls_to_def)

theorem args_unchanged_counterexample:
  "map kwargs_of (calls_to Exceiver (fst (main args_plain (world_of answers args_plain) []))) =
     [args_plain @ [(''seq_len'', VInt 5)]] \<and>
   args_plain @ [(''seq_len'', VInt 5)] \<noteq> args_plain"
  unfolding run_plain_Exceiver by (simp add: args_plain_def)

lemma args_always:
  "always (main args) []
     (\<lambda>tr r.
        (\<forall>e\<in>set (calls_to Path_mkdir tr). map Some (positional e) = [map_of args ''logs'']) \<and>
        (\<forall>e\<in>set (calls_to ExceiverDataModule tr).
           map fst (kwargs_of e) = [''data_path'', ''classify''] \<and>
           map_of (kwargs_of e) ''data_path'' = map_of args ''data_path'' \<and>
           map_of (kwargs_of e) ''classify'' = map_of args ''classify'') \<and>
        (\<forall>e\<in>set (calls_to TensorBoardLogger tr).
           map_of (kwargs_of e) ''save_dir'' = map_of args ''logs'' \<and>
           map_of (kwargs_of e) ''version'' = map_of args ''name'') \<and>
        (\<forall>e\<in>set (calls_to Trainer tr).
           map_of (kwargs_of e) ''strategy'' = map_of args ''strategy'') \<and>
        (\<forall>e\<in>set (calls_to Exceiver_load_from_checkpoint tr @
                  calls_to ExceiverClassifier_load_from_checkpoint tr).
           map fst (kwargs_of e) = [''checkpoint_path''] \<and>
           map_of (kwargs_of e) ''checkpoint_path'' = map_of args ''load'') \<and>
        (\<forall>e\<in>set (calls_to Exceiver tr).
           \<exists>n. map answer (attribute_reads ''n_features'' tr) = [Inr n] \<and>
               kwargs_of e = setattr args ''seq_len'' n) \<and>
        (\<forall>e\<in>set (calls_to ExceiverClassifier tr).
           \<exists>n d. map answer (attribute_reads ''n_features'' tr) = [Inr n] \<and>
                 map answer (calls_to nunique tr) = [Inr d] \<and>
                 kwargs_of e = (''classify_dim'', d) # setattr args ''seq_len'' n))"
  unfolding main_unfold bnd_assoc if_cancel bnd_if
  by (intro always_intros) (simp_all add: calls_to_def attribute_reads_def)

text \<open>
  C2, amended. What the script reads from the parsed arguments reaches the external
  code unchanged: \<open>args.logs\<close> is the path whose \<open>mkdir\<close> is called and the
  \<open>save_dir\<close> of the logger, \<open>args.name\<close> its \<open>version\<close>, \<open>args.data_path\<close> and
  \<open>args.classify\<close> are the two keywords of the data module, \<open>args.strategy\<close> is the
  \<open>strategy\<close> of the trainer, \<open>args.load\<close> the one keyword \<open>checkpoint_path\<close> of
  \<open>load_from_checkpoint\<close>. A model constructor gets the whole namespace after
  \<open>args.seq_len = dm.n_features\<close>, that is every parsed argument other than
  \<open>seq_len\<close> with its parsed value, and \<open>seq_len\<close> with the value read from the data
  module (added, or put in the place of a parsed one); \<open>ExceiverClassifier\<close> gets one
  more keyword, \<open>classify_dim\<close>, the number that \<open>nunique\<close> returned.
\<close>

theorem args_reach_constructors:
  "(\<forall>e\<in>set (calls_to Path_mkdir (fst (main args w []))).
      map Some (positional e) = [map_of args ''logs'']) \<and>
   (\<forall>e\<in>set (calls_to ExceiverDataModule (fst (main args w []))).
      map fst (kwargs_of e) = [''data_path'', ''classify''] \<and>
      map_of (kwargs_of e) ''data_path'' = map_of args ''data_path'' \<and>
      map_of (kwargs_of e) ''classify'' = map_of args ''classify'') \<and>
   (\<forall>e\<in>set (calls_to TensorBoardLogger (fst (main args w []))).
      map_of (kwargs_of e) ''save_dir'' = map_of args ''logs'' \<and>
      map_of (kwargs_of e) ''version'' = map_of args ''name'') \<and>
   (\<forall>e\<in>set (calls_to Trainer (fst (main args w []))).
      map_of (kwargs_of e) ''strategy'' = map_of args ''strategy'') \<and>
   (\<forall>e\<in>set (calls_to Exceiver_load_from_checkpoint (fst (main args w [])) @
             calls_to ExceiverClassifier_load_from_checkpoint (fst (main args w []))).
      map fst (kwargs_of e) = [''checkpoint_path''] \<and>
      map_of (kwargs_of e) ''checkpoint_path'' = map_of args ''load'') \<and>
   (\<forall>e\<in>set (calls_to Exceiver (fst (main args w []))).
      \<exists>n. map answer (attribute_reads ''n_features'' (fst (main args w []))) = [Inr n] \<and>
          kwargs_of e = setattr args ''seq_len'' n) \<and>
   (\<forall>e\<in>set (calls_to ExceiverClassifier (fst (main args w []))).
      \<exists>n d. map answer (attribute_reads ''n_features'' (fst (main args w []))) = [Inr n] \<and>
            map answer (calls_to nunique (fst (main args w []))) = [Inr d] \<and>
            kwargs_of e = (''classify_dim'', d) # setattr args ''seq_len'' n) \<and>
   (\<forall>k n. k \<noteq> ''seq_len'' \<longrightarrow> map_of (setattr args ''seq_len'' n) k = map_of args k)"
proof -
  have "\<forall>k n. k \<noteq> ''seq_len'' \<longrightarrow> map_of (setattr args ''seq_len'' n) k = map_of args k"
    by simp
  with alwaysD[OF args_always, of args w] show ?thesis
    by blast
qed

lemma run_plain_reads:
  "map answer (attribute_reads ''n_features''
     (fst (main args_plain (world_of answers args_plain) []))) = [Inr (VInt 5)]"
  by (simp add: run_plain attribute_reads_def)

lemma setattr_args_plain:
  "setattr args_plain ''seq_len'' n =
     [(''name'', VStr ''run''), (''logs'', VPath ''logs''), (''load'', VNone),
      (''strategy'', VStr ''ddp''), (''data_path'', VStr ''ts.h5ad''),
      (''classify'', VNone), (''seq_len'', n)]"
  by (simp add: setattr_def args_plain_def)

lemma args_plain_name: "map_of args_plain ''name'' = Some (VStr ''run'')"
  by (simp add: args_plain_def)

theorem args_reach_constructors_witness:
  "map kwargs_of (calls_to Exceiver (fst (main args_plain (world_of answers args_plain) []))) =
     [setattr args_plain ''seq_len'' (VInt 5)] \<and>
   map answer (attribute_reads ''n_features''
     (fst (main args_plain (world_of answers args_plain) []))) = [Inr (VInt 5)] \<and>
   map_of (setattr args_plain ''seq_len'' (VInt 5)) ''name'' = map_of args_plain ''name''"
  using args_reach_constructors[of args_plain "world_of answers args_plain"]
  by (simp add: run_plain_Exceiver run_plain_reads setattr_args_plain args_plain_name)

subsection \<open>C3: the order of the steps\<close>

lemma always_bnd_parse:
  assumes "\<And>e. Q (tr @ [Ev (Call parse_args [p] []) (Inl e)]) (Inl e)"
    and "\<And>args. always (f args) (tr @ [Ev (Call parse_args [p] []) (Inr (VNamespace args))]) Q"
  shows "always (bnd (parse p) f) tr Q"
  unfolding always_def
proof (intro allI)
  fix w :: world
  show "case bnd (parse p) f w tr of (tr', r) \<Rightarrow> Q tr' r"
  proof (cases "argv w")
    case (Inl e)
    then show ?thesis
      using assms(1)[of e] by (simp add: bnd_def parse_def)
  next
    case (Inr args)
    then show ?thesis
      using assms(2)[of args] by (simp add: bnd_def parse_def always_def)
  qed
qed

lemma step_of_simps [simp]:
  "step_of ArgumentParser = None"
  "step_of add_argument = None"
  "step_of Exceiver_add_argparse_args = None"
  "step_of ExceiverDataModule_add_argparse_args = None"
  "step_of parse_args = Some ParseArguments"
  "step_of sys_exit = None"
  "step_of seed_everything = Some SeedRNG"
  "step_of Path_mkdir = None"
  "step_of ExceiverDataModule = Some BuildDataModule"
  "step_of prepare_data = Some BuildDataModule"
  "step_of getattribute = None"
  "step_of getitem = None"
  "step_of nunique = None"
  "step_of Exceiver = Some BuildModel"
  "step_of Exceiver_load_from_checkpoint = Some BuildModel"
  "step_of ExceiverClassifier = Some BuildModel"
  "step_of ExceiverClassifier_load_from_checkpoint = Some BuildModel"
  "step_of TensorBoardLogger = Some BuildCallbacks"
  "step_of EarlyStopping = Some BuildCallbacks"
  "step_of ModelCheckpoint = Some BuildCallbacks"
  "step_of datetime_now = None"
  "step_of Trainer = Some BuildTrainer"
  "step_of Trainer_fit = Some CallFit"
  "step_of datetime_sub = None"
  "step_of str_of = None"
  "step_of str_format = None"
  "step_of fstring = None"
  "step_of print = None"
  by (simp_all add: step_of_def builds_Exceiver_def builds_ExceiverClassifier_def)

lemma run_bnd_parse:
  "bnd (parse p) f w tr =
     (case argv w of
        Inl e \<Rightarrow> (tr @ [Ev (Call parse_args [p] []) (Inl e)], Inl e)
      | Inr args \<Rightarrow> f args w (tr @ [Ev (Call parse_args [p] []) (Inr (VNamespace args))]))"
  by (simp add: bnd_def parse_def split: sum.splits)

lemma run_script_no_logs:
  "map callee_of (fst (script (world_of answers args_no_logs) [])) =
     [ArgumentParser, add_argument, add_argument, add_argument, add_argument,
      Exceiver_add_argparse_args, ExceiverDataModule_add_argparse_args, parse_args,
      seed_everything]"
  "filter failed (fst (script (world_of answers args_no_logs) [])) = []"
  "snd (script (world_of answers args_no_logs) []) = Inl (AttributeError ''mkdir'')"
  unfolding script_def main_unfold setattr_def args_no_logs_def
  by (simp_all add: run_simps run_bnd_parse)

lemma steps_callees:
  "steps tr = remdups_adj (List.map_filter step_of (map callee_of tr))"
  by (simp add: steps_def List.map_filter_def comp_def filter_map)

text \<open>
  C3 as stated fails in ``no step is skipped on any execution path'': an execution that
  an exception ends stops short of the later steps. With \<open>--logs\<close> left out the script
  parses the arguments, seeds the RNG and ends at line 46 with an \<open>AttributeError\<close>; no
  external call has raised, and the five later steps are not taken.
\<close>

theorem steps_skipped_counterexample:
  "steps (fst (script (world_of answers args_no_logs) [])) = [ParseArguments, SeedRNG] \<and>
   steps (fst (script (world_of answers args_no_logs) [])) \<noteq> fixed_order \<and>
   filter failed (fst (script (world_of answers args_no_logs) [])) = [] \<and>
   snd (script (world_of answers args_no_logs) []) = Inl (AttributeError ''mkdir'')"
  unfolding steps_callees run_script_no_logs by (simp add: fixed_order_def)

lemma order_always:
  "always script []
     (\<lambda>tr r. prefix (steps tr) fixed_order \<and> distinct (step_calls tr) \<and>
              (calls_to sys_exit tr \<noteq> [] \<longrightarrow> steps tr = fixed_order))"
  unfolding script_def main_unfold bnd_assoc if_cancel bnd_if
  by (intro always_intros always_bnd_parse)
     (simp_all add: steps_def step_calls_def fixed_order_def calls_to_def)

text \<open>
  C3, amended. In every execution of the script, the steps gone through (parse
  arguments, seed the RNG, build the data module, build the model, build the callbacks,
  build the trainer, call \<open>fit\<close>) are an initial part of that list, in that order: a
  step is never taken before an earlier one, never taken again after a later one, and
  none is left out on the way to a later one. No call that stands for a step is made
  twice. An execution in which \<open>main\<close> returns, that is one that reaches \<open>sys.exit\<close>,
  has gone through the whole list.
\<close>

theorem script_steps_in_order:
  "prefix (steps (fst (script w []))) fixed_order \<and>
   distinct (step_calls (fst (script w []))) \<and>
   (calls_to sys_exit (fst (script w [])) \<noteq> [] \<longrightarrow> steps (fst (script w [])) = fixed_order)"
  using alwaysD[OF order_always, of w] by simp

lemma run_script:
  "map callee_of (fst (script (world_of answers args_plain) [])) =
     [ArgumentParser, add_argument, add_argument, add_argument, add_argument,
      Exceiver_add_argparse_args, ExceiverDataModule_add_argparse_args, parse_args,
      seed_everything, Path_mkdir, ExceiverDataModule, prepare_data, getattribute, Exceiver,
      TensorBoardLogger, EarlyStopping, ModelCheckpoint, datetime_now, Trainer, Trainer_fit,
      datetime_now, datetime_sub, str_of, str_format, print, getattribute, fstring, print,
      sys_exit]"
  unfolding script_def main_unfold setattr_def args_plain_def
  by (simp add: run_simps run_bnd_parse)

lemma run_script_steps:
  "calls_to sys_exit (fst (script (world_of answers args_plain) [])) \<noteq> []"
  "steps (fst (script (world_of answers args_plain) [])) =
     [ParseArguments, SeedRNG, BuildDataModule, BuildModel, BuildCallbacks, BuildTrainer,
      CallFit]"
proof -
  have c: "calls_to sys_exit tr = [] \<longleftrightarrow> sys_exit \<notin> set (map callee_of tr)" for tr
    by (induction tr) (auto simp: calls_to_def)
  show "calls_to sys_exit (fst (script (world_of answers args_plain) [])) \<noteq> []"
    unfolding c run_script by simp
  show "steps (fst (script (world_of answers args_plain) [])) =
     [ParseArguments, SeedRNG, BuildDataModule, BuildModel, BuildCallbacks, BuildTrainer,
      CallFit]"
    unfolding steps_callees run_script by simp
qed

theorem script_steps_in_order_witness:
  "calls_to sys_exit (fst (script (world_of answers args_plain) [])) \<noteq> [] \<and>
   steps (fst (script (world_of answers args_plain) [])) =
     [ParseArguments, SeedRNG, BuildDataModule, BuildModel, BuildCallbacks, BuildTrainer,
      CallFit]"
  using script_steps_in_order[of "world_of answers args_plain"]
  by (simp add: run_script_steps)

subsection \<open>C4: the two callbacks\<close>





subsection \<open>C5: one call of \<open>fit\<close>\<close>

text \<open>
  C5 as stated fails in ``exactly one call'': a run that ends before line 103 does not
  call \<open>fit\<close>. With \<open>--logs\<close> left out the run ends at line 46 with an
  \<open>AttributeError\<close>, after one external call, which returned; no trainer is made and
  \<open>fit\<close> is not called.
\<close>

theorem fit_not_called_counterexample:
  "main args_no_logs (world_of answers args_no_logs) [] =
     ([Ev (Call seed_everything [VInt 2299] []) (Inr (VObj 0))],
      Inl (AttributeError ''mkdir'')) \<and>
   calls_to Trainer_fit (fst (main args_no_logs (world_of answers args_no_logs) [])) = [] \<and>
   calls_to Trainer (fst (main args_no_logs (world_of answers args_no_logs) [])) = [] \<and>
   length (calls_to Trainer_fit (fst (main args_no_logs (world_of answers args_no_logs) [])))
     \<noteq> 1"
  by (simp add: run_no_logs calls_to_def)

lemma fit_always:
  "always (main args) []
     (\<lambda>tr r.
        length (calls_to Trainer_fit tr) \<le> 1 \<and>
        (\<forall>e\<in>set (calls_to Trainer_fit tr). \<exists>trainer model dm.
           positional e = [trainer, model, dm] \<and> kwargs_of e = [] \<and>
           map answer (calls_to Trainer tr) = [Inr trainer] \<and>
           map answer (model_builds tr) = [Inr model] \<and>
           map answer (calls_to ExceiverDataModule tr) = [Inr dm]) \<and>
        length tr \<le> 24 \<and>
        (\<not> isl r \<longrightarrow> length (calls_to Trainer_fit tr) = 1))"
  unfolding main_unfold bnd_assoc if_cancel bnd_if
  by (intro always_intros)
     (simp_all add: calls_to_def model_builds_def builds_Exceiver_def
        builds_ExceiverClassifier_def)

text \<open>
  C5, amended. A run of \<open>main\<close> calls \<open>fit\<close> at most once, and exactly once when
  \<open>main\<close> returns. The call is \<open>trainer.fit(model, dm)\<close>, with no keyword: \<open>trainer\<close>
  is what the one construction of the trainer returned, \<open>model\<close> what the one
  construction of a model returned, \<open>dm\<close> what the one construction of the data module
  returned. The script has no loop of its own: no run makes more than 24 external
  calls, whatever the world answers.
\<close>

theorem fit_called_once:
  "length (calls_to Trainer_fit (fst (main args w []))) \<le> 1 \<and>
   (\<forall>e\<in>set (calls_to Trainer_fit (fst (main args w []))). \<exists>trainer model dm.
      positional e = [trainer, model, dm] \<and> kwargs_of e = [] \<and>
      map answer (calls_to Trainer (fst (main args w []))) = [Inr trainer] \<and>
      map answer (model_builds (fst (main args w []))) = [Inr model] \<and>
      map answer (calls_to ExceiverDataModule (fst (main args w []))) = [Inr dm]) \<and>
   length (fst (main args w [])) \<le> 24 \<and>
   (\<not> isl (snd (main args w [])) \<longrightarrow>
      length (calls_to Trainer_fit (fst (main args w []))) = 1)"
  using alwaysD[OF fit_always, of args w] by simp

lemma run_plain_fit:
  "map call_of (calls_to Trainer_fit (fst (main args_plain (world_of answers args_plain) []))) =
     [Call Trainer_fit [VObj 10, VObj 5, VObj 2] []]"
  "map answer (calls_to Trainer (fst (main args_plain (world_of answers args_plain) []))) =
     [Inr (VObj 10)]"
  "map answer (calls_to ExceiverDataModule
     (fst (main args_plain (world_of answers args_plain) []))) = [Inr (VObj 2)]"
  "length (fst (main args_plain (world_of answers args_plain) [])) = 20"
  by (simp_all add: run_plain calls_to_def)

theorem fit_called_once_witness:
  "\<not> isl (snd (main args_plain (world_of answers args_plain) [])) \<and>
   map call_of (calls_to Trainer_fit (fst (main args_plain (world_of answers args_plain) []))) =
     [Call Trainer_fit [VObj 10, VObj 5, VObj 2] []] \<and>
   map answer (calls_to Trainer (fst (main args_plain (world_of answers args_plain) []))) =
     [Inr (VObj 10)] \<and>
   map answer (model_builds (fst (main args_plain (world_of answers args_plain) []))) =
     [Inr (VObj 5)] \<and>
   map answer (calls_to ExceiverDataModule
     (fst (main args_plain (world_of answers args_plain) []))) = [Inr (VObj 2)]"
  using fit_called_once[of args_plain "world_of answers args_plain"]
  by (simp add: run_plain_fit run_plain_model run_plain_returns)

subsection \<open>C6: exceptions propagate\<close>

lemma raise_always:
  "always (main args) []
     (\<lambda>tr r. (\<forall>e\<in>set (butlast tr). \<not> failed e) \<and>
              (tr \<noteq> [] \<and> failed (last tr) \<longrightarrow> r = answer (last tr)))"
  unfolding main_unfold bnd_assoc if_cancel bnd_if
  by (intro always_intros) (simp_all add: butlast_append)

text \<open>
  C6. In every run of \<open>main\<close>, an external call that raises is the last thing the run
  does: no event before the last one of the trace is a failed call, so nothing (no
  recovery, no retry, no cleanup) follows an exception. And when the last call raised,
  the outcome of \<open>main\<close> is that very exception: it is not caught.
\<close>

theorem main_propagates:
  "(\<forall>e\<in>set (butlast (fst (main args w []))). \<not> failed e) \<and>
   (fst (main args w []) \<noteq> [] \<and> failed (last (fst (main args w []))) \<longrightarrow>
      snd (main args w []) = answer (last (fst (main args w []))))"
  using alwaysD[OF raise_always, of args w] by simp

theorem main_propagates_witness:
  "map callee_of (fst (main args_plain (world_of answers_no_data args_plain) [])) =
     [seed_everything, Path_mkdir, ExceiverDataModule, prepare_data] \<and>
   failed (last (fst (main args_plain (world_of answers_no_data args_plain) []))) \<and>
   snd (main args_plain (world_of answers_no_data args_plain) []) = Inl (Raised 2)"
  using main_propagates[of args_plain "world_of answers_no_data args_plain"]
  by (simp add: run_no_data)

subsection \<open>C7: the seed\<close>

lemma seed_always:
  "always (main args) []
     (\<lambda>tr r. tr \<noteq> [] \<and> call_of (hd tr) = Call seed_everything [VInt 2299] [] \<and>
        map call_of (calls_to seed_everything tr) = [Call seed_everything [VInt 2299] []])"
  unfolding main_unfold bnd_assoc if_cancel bnd_if
  by (intro always_intros) (simp_all add: calls_to_def)

text \<open>
  C7. Whatever the arguments and whatever the world, the first external call of \<open>main\<close>
  is \<open>seed_everything(2299)\<close>, so it comes before the data module and the model are
  made, and it is the only call of \<open>seed_everything\<close> in the run. The seed is the
  constant of the source: two runs, on any two argument sets \<open>args\<close> and \<open>args'\<close> in
  any two worlds, seed the generator with the same call.
\<close>

theorem main_seeds_2299_first:
  "fst (main args w []) \<noteq> [] \<and>
   call_of (hd (fst (main args w []))) = Call seed_everything [VInt 2299] [] \<and>
   map call_of (calls_to seed_everything (fst (main args w []))) =
     [Call seed_everything [VInt 2299] []] \<and>
   map call_of (calls_to seed_everything (fst (main args w []))) =
     map call_of (calls_to seed_everything (fst (main args' w' [])))"
  using alwaysD[OF seed_always, of args w] alwaysD[OF seed_always, of args' w'] by simp

subsection \<open>C8: loading from a checkpoint\<close>

text \<open>
  C8 as stated fails: \<open>if args.load:\<close> tests the truth value of \<open>args.load\<close>, not
  whether it is \<open>None\<close>. With \<open>--load ""\<close> the attribute is the empty string, which is
  not \<open>None\<close> and is false: the model is made by the constructor, from the arguments.
\<close>

theorem load_not_None_counterexample:
  "map_of args_empty_load ''load'' = Some (VStr []) \<and> VStr [] \<noteq> VNone \<and>
   map callee_of
     (model_builds (fst (main args_empty_load (world_of answers args_empty_load) []))) =
     [Exceiver]"
  by (simp add: run_empty_load)

lemma load_always:
  assumes "map_of args ''load'' = Some path" and "truthy path"
  shows "always (main args) []
     (\<lambda>tr r.
        (\<forall>e\<in>set (model_builds tr).
           (callee_of e = Exceiver_load_from_checkpoint \<or>
            callee_of e = ExceiverClassifier_load_from_checkpoint) \<and>
           positional e = [] \<and> kwargs_of e = [(''checkpoint_path'', path)]) \<and>
        calls_to nunique tr = [] \<and> calls_to getitem tr = [] \<and>
        (\<not> isl r \<longrightarrow> length (model_builds tr) = 1))"
  unfolding main_unfold bnd_assoc if_cancel bnd_if
  by (intro always_intros)
     (use assms in \<open>simp_all add: calls_to_def model_builds_def builds_Exceiver_def
        builds_ExceiverClassifier_def\<close>)

text \<open>
  C8, amended. When \<open>args.load\<close> is true (for a string: not empty), a model is made
  only by \<open>load_from_checkpoint\<close>, and the call has one argument,
  \<open>checkpoint_path=args.load\<close>: no other command-line argument and no \<open>seq_len\<close>
  reaches it, and \<open>classify_dim\<close> is not even computed (no column is looked up and
  \<open>nunique\<close> is not called). When \<open>main\<close> returns, exactly one such call was made.
\<close>

theorem load_restores_model:
  assumes "map_of args ''load'' = Some path" and "truthy path"
  shows "(\<forall>e\<in>set (model_builds (fst (main args w []))).
            (callee_of e = Exceiver_load_from_checkpoint \<or>
             callee_of e = ExceiverClassifier_load_from_checkpoint) \<and>
            positional e = [] \<and> kwargs_of e = [(''checkpoint_path'', path)]) \<and>
         calls_to nunique (fst (main args w [])) = [] \<and>
         calls_to getitem (fst (main args w [])) = [] \<and>
         (\<not> isl (snd (main args w [])) \<longrightarrow> length (model_builds (fst (main args w []))) = 1)"
  using alwaysD[OF load_always[OF assms], of w] by simp

theorem load_restores_model_witness:
  "map_of args_load ''load'' = Some (VStr ''last.ckpt'') \<and> truthy (VStr ''last.ckpt'') \<and>
   \<not> isl (snd (main args_load (world_of answers args_load) [])) \<and>
   model_builds (fst (main args_load (world_of answers args_load) [])) =
     [Ev (Call ExceiverClassifier_load_from_checkpoint []
           [(''checkpoint_path'', VStr ''last.ckpt'')]) (Inr (VObj 5))] \<and>
   calls_to nunique (fst (main args_load (world_of answers args_load) [])) = []"
  using load_restores_model[of args_load "VStr ''last.ckpt''" "world_of answers args_load"]
  by (simp add: run_load)

subsection \<open>C9: one device, whatever the strategy\<close>



lemma args_auto_lookup [simp]: "map_of args_auto ''strategy'' = Some (VStr ''auto'')"
  by (simp add: args_auto_def)




end
